theory Spec2Isabelle
  imports Complex_Main
begin

section \<open>JavaScript values\<close>

text \<open>
  The streaming handlers work on whatever \<^verbatim>\<open>JSON.parse\<close> returns (type \<^verbatim>\<open>any\<close>), so the
  model has a type of JavaScript values: the JSON values and \<^verbatim>\<open>undefined\<close>, which a
  property read of a missing field yields. Strings are byte strings (the UTF-8 bytes of
  the JavaScript string; ASCII text is itself). A number is kept as the decimal it was
  written as, \<open>JNum m e\<close> standing for \<open>m * 10^e\<close>: the handlers only copy numbers and test
  them for zero, so the rounding and the range of IEEE doubles are not modelled.
\<close>

datatype jsval =
    JUndefined
  | JNull
  | JBool bool
  | JNum int int
  | JStr string
  | JArr "jsval list"
  | JObj "(string \<times> jsval) list"

text \<open>
  \<open>TypeError\<close> is the exception the runtime throws when a property of \<^verbatim>\<open>null\<close> or
  \<^verbatim>\<open>undefined\<close> is read. \<open>MalformedUpstream\<close> is the error kind of the specification's
  taxonomy; no statement of the source throws it.
\<close>

datatype error = TypeError | MalformedUpstream

definition bindE :: "error + 'a \<Rightarrow> ('a \<Rightarrow> error + 'b) \<Rightarrow> error + 'b" where
  "bindE m f = (case m of Inl e \<Rightarrow> Inl e | Inr x \<Rightarrow> f x)"

text \<open>JavaScript's ToBoolean.\<close>

fun truthy :: "jsval \<Rightarrow> bool" where
  "truthy JUndefined = False"
| "truthy JNull = False"
| "truthy (JBool b) = b"
| "truthy (JNum m e) = (m \<noteq> 0)"
| "truthy (JStr s) = (s \<noteq> [])"
| "truthy (JArr xs) = True"
| "truthy (JObj kvs) = True"

text \<open>
  \<open>lookup kvs k\<close>: the own property \<open>k\<close> of an object built by \<^verbatim>\<open>JSON.parse\<close> from the
  members \<open>kvs\<close> in textual order; a repeated key takes its last value.
\<close>

definition lookup :: "(string \<times> jsval) list \<Rightarrow> string \<Rightarrow> jsval" where
  "lookup kvs k = (case map_of (rev kvs) k of None \<Rightarrow> JUndefined | Some v \<Rightarrow> v)"

text \<open>
  \<open>getProp v k\<close> is the property read \<^verbatim>\<open>v.k\<close> for the field names the handlers read
  (\<^verbatim>\<open>choices\<close>, \<^verbatim>\<open>delta\<close>, \<^verbatim>\<open>content\<close>, \<^verbatim>\<open>message\<close>, \<^verbatim>\<open>finish_reason\<close>, \<^verbatim>\<open>id\<close>, \<^verbatim>\<open>model\<close>,
  \<^verbatim>\<open>usage\<close>, \<^verbatim>\<open>completion_tokens\<close>): none of them is defined on the prototypes of arrays,
  strings, numbers or booleans, so only an object can have them.
\<close>

fun getProp :: "jsval \<Rightarrow> string \<Rightarrow> error + jsval" where
  "getProp JUndefined k = Inl TypeError"
| "getProp JNull k = Inl TypeError"
| "getProp (JObj kvs) k = Inr (lookup kvs k)"
| "getProp v k = Inr JUndefined"

text \<open>
  \<open>index0 v\<close> is \<^verbatim>\<open>v[0]\<close>: the first element of an array, the first character of a string
  (as a one-character string, represented by its first byte), the property \<^verbatim>\<open>"0"\<close> of an
  object.
\<close>

fun index0 :: "jsval \<Rightarrow> error + jsval" where
  "index0 JUndefined = Inl TypeError"
| "index0 JNull = Inl TypeError"
| "index0 (JArr xs) = Inr (case xs of [] \<Rightarrow> JUndefined | x # _ \<Rightarrow> x)"
| "index0 (JStr s) = Inr (case s of [] \<Rightarrow> JUndefined | c # _ \<Rightarrow> JStr [c])"
| "index0 (JObj kvs) = Inr (lookup kvs ''0'')"
| "index0 v = Inr JUndefined"

text \<open>\<^verbatim>\<open>v?.k\<close>: \<^verbatim>\<open>undefined\<close> when \<open>v\<close> is \<^verbatim>\<open>null\<close> or \<^verbatim>\<open>undefined\<close>, else \<^verbatim>\<open>v.k\<close>.\<close>

definition getPropOpt :: "jsval \<Rightarrow> string \<Rightarrow> error + jsval" where
  "getPropOpt v k = (if v = JNull \<or> v = JUndefined then Inr JUndefined else getProp v k)"

text \<open>\<^verbatim>\<open>a || b\<close> on values.\<close>

definition or_else :: "jsval \<Rightarrow> jsval \<Rightarrow> jsval" where
  "or_else a b = (if truthy a then a else b)"

section \<open>The runtime's \<^verbatim>\<open>JSON.parse\<close>\<close>

text \<open>
  \<^verbatim>\<open>JSON.parse\<close> belongs to the JavaScript runtime, not to the repository. The handlers
  below take the parser as an argument \<open>parse\<close>, with \<open>None\<close> for a thrown
  \<^verbatim>\<open>SyntaxError\<close>, so what is proved of them holds for every parser. For evaluation on
  concrete texts, \<open>JSON_parse\<close> is a reader for the JSON grammar (ECMA-404): a lexer, run
  as a machine over the characters, and a parser, run as a stack machine over the tokens.
  A \<^verbatim>\<open>\uXXXX\<close> escape yields the UTF-8 bytes of that code unit.
  The two escapes of a surrogate pair are encoded one by one, and numbers stay as written;
  no statement below is about a text with either.
\<close>

datatype token = LBrace | RBrace | LBracket | RBracket | Colon | Comma
  | TString string | TNumber int int | TTrue | TFalse | TNull

definition is_digit :: "char \<Rightarrow> bool" where
  "is_digit c = (c \<in> set ''0123456789'')"

definition is_hex :: "char \<Rightarrow> bool" where
  "is_hex c = (c \<in> set ''0123456789abcdefABCDEF'')"

definition is_lower :: "char \<Rightarrow> bool" where
  "is_lower c = (c \<in> set ''abcdefghijklmnopqrstuvwxyz'')"

definition is_json_space :: "char \<Rightarrow> bool" where
  "is_json_space c = (c \<in> {CHR '' '', CHR 0x09, CHR 0x0A, CHR 0x0D})"

text \<open>The value of a decimal or hexadecimal digit.\<close>

definition hex_val :: "char \<Rightarrow> nat" where
  "hex_val c = (if is_digit c then of_char c - 48
                else if c \<in> set ''abcdef'' then of_char c - 87
                else of_char c - 55)"

definition digits_val :: "string \<Rightarrow> int" where
  "digits_val ds = foldl (\<lambda>n c. 10 * n + int (hex_val c)) 0 ds"

definition hex4_val :: "string \<Rightarrow> nat" where
  "hex4_val ds = foldl (\<lambda>n c. 16 * n + hex_val c) 0 ds"

text \<open>The UTF-8 bytes of a code unit below \<open>0x10000\<close>.\<close>

definition utf8 :: "nat \<Rightarrow> string" where
  "utf8 n = (if n < 0x80 then [char_of n]
             else if n < 0x800 then [char_of (0xC0 + n div 64), char_of (0x80 + n mod 64)]
             else [char_of (0xE0 + n div 4096), char_of (0x80 + (n div 64) mod 64),
                   char_of (0x80 + n mod 64)])"

text \<open>The character that a one-letter escape stands for.\<close>

definition escape :: "char \<Rightarrow> char option" where
  "escape c =
     (if c = CHR 0x22 then Some (CHR 0x22)
      else if c = CHR 0x5C then Some (CHR 0x5C)
      else if c = CHR ''/'' then Some (CHR ''/'')
      else if c = CHR ''b'' then Some (CHR 0x08)
      else if c = CHR ''f'' then Some (CHR 0x0C)
      else if c = CHR ''n'' then Some (CHR 0x0A)
      else if c = CHR ''r'' then Some (CHR 0x0D)
      else if c = CHR ''t'' then Some (CHR 0x09)
      else None)"

definition keyword :: "string \<Rightarrow> token option" where
  "keyword w = (if w = ''true'' then Some TTrue else if w = ''false'' then Some TFalse
                else if w = ''null'' then Some TNull else None)"

text \<open>
  The number grammar: an optional minus sign, an integer part without a leading zero, an
  optional fraction with at least one digit, an optional exponent with at least one digit.
  The result is the mantissa and the decimal exponent.
\<close>

definition number :: "string \<Rightarrow> (int \<times> int) option" where
  "number s =
     (let neg = (take 1 s = ''-'');
          s1 = (if neg then drop 1 s else s);
          ip = takeWhile is_digit s1;
          s2 = dropWhile is_digit s1;
          has_frac = (take 1 s2 = ''.'');
          fp = (if has_frac then takeWhile is_digit (drop 1 s2) else []);
          s3 = (if has_frac then dropWhile is_digit (drop 1 s2) else s2);
          has_exp = (take 1 s3 = ''e'' \<or> take 1 s3 = ''E'');
          s4 = drop 1 s3;
          eneg = (take 1 s4 = ''-'');
          s5 = (if take 1 s4 = ''-'' \<or> take 1 s4 = ''+'' then drop 1 s4 else s4);
          m = (if neg then - digits_val (ip @ fp) else digits_val (ip @ fp))
      in if ip = [] \<or> (1 < length ip \<and> take 1 ip = ''0'') then None
         else if has_frac \<and> fp = [] then None
         else if \<not> has_exp then (if s3 = [] then Some (m, - int (length fp)) else None)
         else if s5 = [] \<or> \<not> list_all is_digit s5 then None
         else Some (m, (if eneg then - digits_val s5 else digits_val s5)
                       - int (length fp)))"

text \<open>
  The lexer reads one character at a time. Its mode is what it is in the middle of: a
  string (with the characters read so far), an escape, the hex digits of a \<^verbatim>\<open>\u\<close> escape,
  a number or a word. A number or a word ends at the first character that cannot continue
  it; that character is then read in mode \<open>Idle\<close>.
\<close>

datatype lexmode = Idle | InString string | InEscape string | InUnicode string string
  | InNumber string | InWord string

definition idle_step :: "char \<Rightarrow> (lexmode \<times> token list) option" where
  "idle_step c =
     (if is_json_space c then Some (Idle, [])
      else if c = CHR ''{'' then Some (Idle, [LBrace])
      else if c = CHR ''}'' then Some (Idle, [RBrace])
      else if c = CHR ''['' then Some (Idle, [LBracket])
      else if c = CHR '']'' then Some (Idle, [RBracket])
      else if c = CHR '':'' then Some (Idle, [Colon])
      else if c = CHR '','' then Some (Idle, [Comma])
      else if c = CHR 0x22 then Some (InString [], [])
      else if c = CHR ''-'' \<or> is_digit c then Some (InNumber [c], [])
      else if is_lower c then Some (InWord [c], [])
      else None)"

definition after_token :: "token option \<Rightarrow> char \<Rightarrow> (lexmode \<times> token list) option" where
  "after_token tok c =
     (case tok of None \<Rightarrow> None
      | Some t \<Rightarrow> (case idle_step c of None \<Rightarrow> None | Some (md, ts) \<Rightarrow> Some (md, t # ts)))"

fun lex_step :: "lexmode \<Rightarrow> char \<Rightarrow> (lexmode \<times> token list) option" where
  "lex_step Idle c = idle_step c"
| "lex_step (InString acc) c =
     (if c = CHR 0x22 then Some (Idle, [TString acc])
      else if c = CHR 0x5C then Some (InEscape acc, [])
      else if (of_char c :: nat) < 0x20 then None
      else Some (InString (acc @ [c]), []))"
| "lex_step (InEscape acc) c =
     (case escape c of
        Some d \<Rightarrow> Some (InString (acc @ [d]), [])
      | None \<Rightarrow> if c = CHR ''u'' then Some (InUnicode acc [], []) else None)"
| "lex_step (InUnicode acc ds) c =
     (if \<not> is_hex c then None
      else if length ds = 3 then Some (InString (acc @ utf8 (hex4_val (ds @ [c]))), [])
      else Some (InUnicode acc (ds @ [c]), []))"
| "lex_step (InNumber acc) c =
     (if is_digit c \<or> c \<in> set ''+-.eE'' then Some (InNumber (acc @ [c]), [])
      else after_token (map_option (\<lambda>(m, e). TNumber m e) (number acc)) c)"
| "lex_step (InWord acc) c =
     (if is_lower c then Some (InWord (acc @ [c]), [])
      else after_token (keyword acc) c)"

fun lex_end :: "lexmode \<Rightarrow> token list option" where
  "lex_end Idle = Some []"
| "lex_end (InNumber acc) = map_option (\<lambda>(m, e). [TNumber m e]) (number acc)"
| "lex_end (InWord acc) = map_option (\<lambda>t. [t]) (keyword acc)"
| "lex_end md = None"

fun lex :: "lexmode \<Rightarrow> string \<Rightarrow> token list option" where
  "lex md [] = lex_end md"
| "lex md (c # cs) =
     (case lex_step md c of None \<Rightarrow> None
      | Some (md', ts) \<Rightarrow> map_option ((@) ts) (lex md' cs))"

text \<open>
  The parser reads one token at a time. Its stack holds the arrays and objects that are
  open, innermost first: \<open>InArr xs\<close> with the elements read so far, \<open>InObj ms k\<close> with the
  members read so far and the key being read. Its mode is what may come next.
  \<open>deliver v\<close> hands a finished value to the innermost open array or object, or finishes.
\<close>

datatype ctx = InArr "jsval list" | InObj "(string \<times> jsval) list" string

datatype pmode = WantValue | WantValueOrClose | WantKey | WantKeyOrClose | WantColon
  | AfterValue | Finished jsval

fun deliver :: "jsval \<Rightarrow> ctx list \<Rightarrow> pmode \<times> ctx list" where
  "deliver v [] = (Finished v, [])"
| "deliver v (InArr xs # st) = (AfterValue, InArr (xs @ [v]) # st)"
| "deliver v (InObj ms k # st) = (AfterValue, InObj (ms @ [(k, v)]) k # st)"

fun close_arr :: "ctx list \<Rightarrow> (pmode \<times> ctx list) option" where
  "close_arr (InArr xs # st) = Some (deliver (JArr xs) st)"
| "close_arr st = None"

fun close_obj :: "ctx list \<Rightarrow> (pmode \<times> ctx list) option" where
  "close_obj (InObj ms k # st) = Some (deliver (JObj ms) st)"
| "close_obj st = None"

fun begin_value :: "token \<Rightarrow> ctx list \<Rightarrow> (pmode \<times> ctx list) option" where
  "begin_value (TString s) st = Some (deliver (JStr s) st)"
| "begin_value (TNumber m e) st = Some (deliver (JNum m e) st)"
| "begin_value TTrue st = Some (deliver (JBool True) st)"
| "begin_value TFalse st = Some (deliver (JBool False) st)"
| "begin_value TNull st = Some (deliver JNull st)"
| "begin_value LBracket st = Some (WantValueOrClose, InArr [] # st)"
| "begin_value LBrace st = Some (WantKeyOrClose, InObj [] [] # st)"
| "begin_value t st = None"

fun begin_key :: "token \<Rightarrow> ctx list \<Rightarrow> (pmode \<times> ctx list) option" where
  "begin_key (TString k) (InObj ms k0 # st) = Some (WantColon, InObj ms k # st)"
| "begin_key t st = None"

fun after_value :: "token \<Rightarrow> ctx list \<Rightarrow> (pmode \<times> ctx list) option" where
  "after_value Comma (InArr xs # st) = Some (WantValue, InArr xs # st)"
| "after_value Comma (InObj ms k # st) = Some (WantKey, InObj ms k # st)"
| "after_value RBracket st = close_arr st"
| "after_value RBrace st = close_obj st"
| "after_value t st = None"

fun pstep :: "pmode \<Rightarrow> ctx list \<Rightarrow> token \<Rightarrow> (pmode \<times> ctx list) option" where
  "pstep WantValue st t = begin_value t st"
| "pstep WantValueOrClose st t = (if t = RBracket then close_arr st else begin_value t st)"
| "pstep WantKey st t = begin_key t st"
| "pstep WantKeyOrClose st t = (if t = RBrace then close_obj st else begin_key t st)"
| "pstep WantColon st t = (if t = Colon then Some (WantValue, st) else None)"
| "pstep AfterValue st t = after_value t st"
| "pstep (Finished v) st t = None"

fun parse_tokens :: "pmode \<Rightarrow> ctx list \<Rightarrow> token list \<Rightarrow> jsval option" where
  "parse_tokens m st [] = (case m of Finished v \<Rightarrow> Some v | _ \<Rightarrow> None)"
| "parse_tokens m st (t # ts) =
     (case pstep m st t of None \<Rightarrow> None | Some (m', st') \<Rightarrow> parse_tokens m' st' ts)"

definition JSON_parse :: "string \<Rightarrow> jsval option" where
  "JSON_parse s = (case lex Idle s of None \<Rightarrow> None | Some ts \<Rightarrow> parse_tokens WantValue [] ts)"

section \<open>Finish-reason mapping\<close>

text \<open>
  \<^verbatim>\<open>mapFinishReason\<close> of \<^verbatim>\<open>request-handler.ts\<close> (class \<^verbatim>\<open>AnthropicRequestHandler\<close>); its
  argument is the \<^verbatim>\<open>finish_reason\<close> string of a typed response.
\<close>

definition mapFinishReason :: "string \<Rightarrow> string" where
  "mapFinishReason openRouterReason =
     (if openRouterReason = ''stop'' then ''end_turn''
      else if openRouterReason = ''length'' then ''max_tokens''
      else if openRouterReason = ''content_filter'' then ''stop_sequence''
      else openRouterReason)"

text \<open>
  \<^verbatim>\<open>mapFinishReason\<close> of \<^verbatim>\<open>streaming-handler.ts\<close> (class \<^verbatim>\<open>StreamingResponseHandler\<close>). The
  same \<^verbatim>\<open>switch\<close>; here the argument is a field of a parsed chunk, so any truthy value
  can arrive. \<^verbatim>\<open>switch\<close> compares with \<^verbatim>\<open>===\<close>, so a value that is not a string takes the
  default branch.
\<close>

definition SRH_mapFinishReason :: "jsval \<Rightarrow> jsval" where
  "SRH_mapFinishReason openRouterReason =
     (if openRouterReason = JStr ''stop'' then JStr ''end_turn''
      else if openRouterReason = JStr ''length'' then JStr ''max_tokens''
      else if openRouterReason = JStr ''content_filter'' then JStr ''stop_sequence''
      else openRouterReason)"

text \<open>\<^verbatim>\<open>mapFinishReason\<close> of \<^verbatim>\<open>lib/auth.ts\<close> (the Express streaming module).\<close>

definition Express_mapFinishReason :: "jsval \<Rightarrow> jsval" where
  "Express_mapFinishReason openRouterReason =
     (if openRouterReason = JStr ''stop'' then JStr ''end_turn''
      else if openRouterReason = JStr ''length'' then JStr ''max_tokens''
      else if openRouterReason = JStr ''content_filter'' then JStr ''stop_sequence''
      else openRouterReason)"

section \<open>Stream chunk transformation\<close>

text \<open>
  \<^verbatim>\<open>transformStreamChunk\<close>, once per file. The result is \<open>Inl TypeError\<close> when a property
  read throws, \<open>Inr None\<close> for \<^verbatim>\<open>return null\<close>, and \<open>Inr (Some ev)\<close> for a returned object
  literal, whose fields are listed in the order of the source.
\<close>

definition SRH_transformStreamChunk :: "jsval \<Rightarrow> error + jsval option" where
  "SRH_transformStreamChunk openRouterChunk =
     bindE (getProp openRouterChunk ''choices'') (\<lambda>choices.
     bindE (if truthy choices then index0 choices else Inr choices) (\<lambda>guard.
       if truthy guard then
         bindE (index0 choices) (\<lambda>choice.
         bindE (getProp choice ''delta'') (\<lambda>delta.
         bindE (if truthy delta then getProp delta ''content'' else Inr JUndefined) (\<lambda>content.
           if truthy delta \<and> truthy content then
             Inr (Some (JObj [
               (''type'', JStr ''content_block_delta''),
               (''index'', JNum 0 0),
               (''delta'', JObj [(''type'', JStr ''text_delta''), (''text'', content)])]))
           else
             bindE (getProp choice ''message'') (\<lambda>message.
               if truthy message then
                 bindE (getProp openRouterChunk ''id'') (\<lambda>chunk_id.
                 bindE (getProp openRouterChunk ''model'') (\<lambda>chunk_model.
                   Inr (Some (JObj [
                     (''type'', JStr ''message_start''),
                     (''message'', JObj [
                        (''id'', chunk_id),
                        (''type'', JStr ''message''),
                        (''role'', JStr ''assistant''),
                        (''content'', JArr []),
                        (''model'', chunk_model),
                        (''stop_reason'', JNull),
                        (''stop_sequence'', JNull),
                        (''usage'', JObj [(''input_tokens'', JNum 0 0),
                                         (''output_tokens'', JNum 0 0)])])]))))
               else
                 bindE (getProp choice ''finish_reason'') (\<lambda>finish_reason.
                   if truthy finish_reason then
                     bindE (getProp openRouterChunk ''usage'') (\<lambda>usage.
                     bindE (getPropOpt usage ''completion_tokens'') (\<lambda>completion_tokens.
                       Inr (Some (JObj [
                         (''type'', JStr ''message_delta''),
                         (''delta'', JObj [
                            (''stop_reason'', SRH_mapFinishReason finish_reason),
                            (''stop_sequence'', JNull)]),
                         (''usage'', JObj [
                            (''output_tokens'', or_else completion_tokens (JNum 0 0))])]))))
                   else Inr None)))))
       else Inr None))"

definition transformStreamChunk :: "jsval \<Rightarrow> error + jsval option" where
  "transformStreamChunk openRouterChunk =
     bindE (getProp openRouterChunk ''choices'') (\<lambda>choices.
     bindE (if truthy choices then index0 choices else Inr choices) (\<lambda>guard.
       if truthy guard then
         bindE (index0 choices) (\<lambda>choice.
         bindE (getProp choice ''delta'') (\<lambda>delta.
         bindE (if truthy delta then getProp delta ''content'' else Inr JUndefined) (\<lambda>content.
           if truthy delta \<and> truthy content then
             Inr (Some (JObj [
               (''type'', JStr ''content_block_delta''),
               (''index'', JNum 0 0),
               (''delta'', JObj [(''type'', JStr ''text_delta''), (''text'', content)])]))
           else
             bindE (getProp choice ''message'') (\<lambda>message.
               if truthy message then
                 bindE (getProp openRouterChunk ''id'') (\<lambda>chunk_id.
                 bindE (getProp openRouterChunk ''model'') (\<lambda>chunk_model.
                   Inr (Some (JObj [
                     (''type'', JStr ''message_start''),
                     (''message'', JObj [
                        (''id'', chunk_id),
                        (''type'', JStr ''message''),
                        (''role'', JStr ''assistant''),
                        (''content'', JArr []),
                        (''model'', chunk_model),
                        (''stop_reason'', JNull),
                        (''stop_sequence'', JNull),
                        (''usage'', JObj [(''input_tokens'', JNum 0 0),
                                         (''output_tokens'', JNum 0 0)])])]))))
               else
                 bindE (getProp choice ''finish_reason'') (\<lambda>finish_reason.
                   if truthy finish_reason then
                     bindE (getProp openRouterChunk ''usage'') (\<lambda>usage.
                     bindE (getPropOpt usage ''completion_tokens'') (\<lambda>completion_tokens.
                       Inr (Some (JObj [
                         (''type'', JStr ''message_delta''),
                         (''delta'', JObj [
                            (''stop_reason'', Express_mapFinishReason finish_reason),
                            (''stop_sequence'', JNull)]),
                         (''usage'', JObj [
                            (''output_tokens'', or_else completion_tokens (JNum 0 0))])]))))
                   else Inr None)))))
       else Inr None))"

section \<open>Server-sent event streams\<close>

text \<open>
  A chunk is the text \<^verbatim>\<open>decoder.decode(chunk, { stream: true })\<close> returns for one read of
  the upstream body; for ASCII input that is the chunk's bytes. What a handler writes is a
  list of frames, one per \<^verbatim>\<open>controller.enqueue\<close> or \<^verbatim>\<open>expressRes.write\<close>, in order:
  \<open>Data v\<close> is the string \<^verbatim>\<open>`data: ${JSON.stringify(v)}\n\n`\<close>, and \<open>Raw s\<close> is the literal
  string \<open>s\<close>.
\<close>

datatype frame = Data jsval | Raw string

fun is_Data :: "frame \<Rightarrow> bool" where
  "is_Data (Data v) = True"
| "is_Data (Raw s) = False"

text \<open>
  \<^verbatim>\<open>s.split(sep)\<close> for a one-character separator: the pieces between separators, so a
  text without separator, the empty one too, is one piece, and a text that ends in the
  separator has an empty last piece. \<open>cur\<close> is the piece being read.
\<close>

fun split_from :: "char \<Rightarrow> string \<Rightarrow> string \<Rightarrow> string list" where
  "split_from sep cur [] = [cur]"
| "split_from sep cur (c # cs) =
     (if c = sep then cur # split_from sep [] cs else split_from sep (cur @ [c]) cs)"

definition js_split :: "char \<Rightarrow> string \<Rightarrow> string list" where
  "js_split sep s = split_from sep [] s"

definition startsWith :: "string \<Rightarrow> string \<Rightarrow> bool" where
  "startsWith s p = (take (length p) s = p)"

text \<open>
  \<open>white_prefix s\<close>: the number of bytes of the white space or line terminator character
  \<open>s\<close> begins with, 0 when it begins with none. These are the characters
  \<^verbatim>\<open>String.prototype.trim\<close> removes: tab, line feed, vertical tab, form feed, carriage
  return, space, U+00A0, U+1680, U+2000 to U+200A, U+2028, U+2029, U+202F, U+205F, U+3000
  and U+FEFF, in UTF-8.
\<close>

definition white_prefix :: "string \<Rightarrow> nat" where
  "white_prefix s =
     (if take 1 s \<in> {[CHR 0x09], [CHR 0x0A], [CHR 0x0B], [CHR 0x0C], [CHR 0x0D], [CHR 0x20]}
      then 1
      else if take 2 s = [CHR 0xC2, CHR 0xA0] then 2
      else if take 3 s \<in> {[CHR 0xE1, CHR 0x9A, CHR 0x80], [CHR 0xE2, CHR 0x80, CHR 0xA8],
                            [CHR 0xE2, CHR 0x80, CHR 0xA9], [CHR 0xE2, CHR 0x80, CHR 0xAF],
                            [CHR 0xE2, CHR 0x81, CHR 0x9F], [CHR 0xE3, CHR 0x80, CHR 0x80],
                            [CHR 0xEF, CHR 0xBB, CHR 0xBF]}
              \<or> (take 2 s = [CHR 0xE2, CHR 0x80] \<and> length s \<ge> 3
                  \<and> (of_char (s ! 2) :: nat) \<in> {0x80..0x8A})
      then 3
      else 0)"

text \<open>\<^verbatim>\<open>line.trim() === ''\<close>: the line consists of white space only.\<close>

function trim_is_empty :: "string \<Rightarrow> bool" where
  "trim_is_empty s =
     (if s = [] then True
      else if white_prefix s = 0 then False
      else trim_is_empty (drop (white_prefix s) s))"
  by pat_completeness auto
termination
  by (relation "measure length") auto

declare trim_is_empty.simps [simp del]

subsection \<open>The edge handler: \<^verbatim>\<open>StreamingResponseHandler.handleStream\<close>\<close>

definition createAnthropicStreamEnd :: jsval where
  "createAnthropicStreamEnd = JObj [(''type'', JStr ''message_stop'')]"

text \<open>
  The body of the \<^verbatim>\<open>for (const line of lines)\<close> loop of \<^verbatim>\<open>transform\<close>, for one line. The
  \<^verbatim>\<open>try\<close>/\<^verbatim>\<open>catch\<close> covers both \<^verbatim>\<open>JSON.parse\<close> and \<^verbatim>\<open>transformStreamChunk\<close>, so a thrown
  \<^verbatim>\<open>SyntaxError\<close> or \<^verbatim>\<open>TypeError\<close> leaves the line without a frame.
\<close>

definition SRH_line :: "(string \<Rightarrow> jsval option) \<Rightarrow> string \<Rightarrow> frame list" where
  "SRH_line parse line =
     (if startsWith line ''data: '' then
        (let data = drop 6 line in
         if data = ''[DONE]'' then
           [Data createAnthropicStreamEnd, Raw ''event: message_stop\<newline>\<newline>'']
         else
           (case parse data of
              None \<Rightarrow> []
            | Some parsed \<Rightarrow>
                (case SRH_transformStreamChunk parsed of
                   Inl e \<Rightarrow> []
                 | Inr None \<Rightarrow> []
                 | Inr (Some anthropicEvent) \<Rightarrow> [Data anthropicEvent])))
      else if trim_is_empty line then [Raw ''\<newline>'']
      else [])"

fun SRH_lines :: "(string \<Rightarrow> jsval option) \<Rightarrow> string list \<Rightarrow> frame list" where
  "SRH_lines parse [] = []"
| "SRH_lines parse (line # lines) = SRH_line parse line @ SRH_lines parse lines"

text \<open>\<^verbatim>\<open>transform\<close>: what one chunk enqueues. Nothing is kept from one call to the next.\<close>

definition transform :: "(string \<Rightarrow> jsval option) \<Rightarrow> string \<Rightarrow> frame list" where
  "transform parse text = SRH_lines parse (js_split (CHR 0x0A) text)"

text \<open>
  \<^verbatim>\<open>handleStream\<close>: the upstream body piped through the transform stream, which calls
  \<^verbatim>\<open>transform\<close> on each chunk in order; \<^verbatim>\<open>flush\<close> enqueues nothing.
\<close>

fun handleStream :: "(string \<Rightarrow> jsval option) \<Rightarrow> string list \<Rightarrow> frame list" where
  "handleStream parse [] = []"
| "handleStream parse (chunk # chunks) = transform parse chunk @ handleStream parse chunks"

subsection \<open>The Express handler: \<^verbatim>\<open>handleStreamingResponse\<close>\<close>

text \<open>The body of the \<^verbatim>\<open>for\<close> loop of \<^verbatim>\<open>handleStreamingResponse\<close> (\<^verbatim>\<open>lib/auth.ts\<close>).\<close>

definition Express_line :: "(string \<Rightarrow> jsval option) \<Rightarrow> string \<Rightarrow> frame list" where
  "Express_line parse line =
     (if startsWith line ''data: '' then
        (let data = drop 6 line in
         if data = ''[DONE]'' then
           [Data (JObj [(''type'', JStr ''message_stop'')])]
         else
           (case parse data of
              None \<Rightarrow> []
            | Some parsed \<Rightarrow>
                (case transformStreamChunk parsed of
                   Inl e \<Rightarrow> []
                 | Inr None \<Rightarrow> []
                 | Inr (Some anthropicEvent) \<Rightarrow> [Data anthropicEvent])))
      else [])"

fun Express_lines :: "(string \<Rightarrow> jsval option) \<Rightarrow> string list \<Rightarrow> frame list" where
  "Express_lines parse [] = []"
| "Express_lines parse (line # lines) = Express_line parse line @ Express_lines parse lines"

text \<open>The \<^verbatim>\<open>while (true)\<close> loop over the reads of the body, until \<^verbatim>\<open>done\<close>.\<close>

fun read_loop :: "(string \<Rightarrow> jsval option) \<Rightarrow> string list \<Rightarrow> frame list" where
  "read_loop parse [] = []"
| "read_loop parse (chunk # chunks) =
     Express_lines parse (js_split (CHR 0x0A) chunk) @ read_loop parse chunks"

text \<open>
  \<^verbatim>\<open>handleStreamingResponse\<close>: the writes made before \<^verbatim>\<open>expressRes.end()\<close>. The body is
  \<open>None\<close> when \<^verbatim>\<open>openRouterResponse.body\<close> is missing; then nothing is written.
\<close>

definition handleStreamingResponse ::
    "(string \<Rightarrow> jsval option) \<Rightarrow> string list option \<Rightarrow> frame list" where
  "handleStreamingResponse parse body =
     (case body of None \<Rightarrow> [] | Some chunks \<Rightarrow> read_loop parse chunks)"

section \<open>Admission: key validation and rate limiting\<close>

text \<open>
  The module state of \<^verbatim>\<open>anthropic-proxy/auth.ts\<close>: the two module-level maps, and the
  console as the list of lines logged. Time is \<^verbatim>\<open>Date.now()\<close> in milliseconds, passed in as
  \<open>now\<close>; the code reads the clock again when it stores an entry, and the model takes both
  readings of one call to be the same; the process environment is passed in as \<open>env\<close>.
\<close>

record CacheEntry =
  valid :: bool
  userId :: "string option"
  expiresAt :: int

record Env =
  VALID_API_KEYS :: "string option"
  NODE_ENV :: "string option"

record AuthState =
  apiKeyCache :: "string \<rightharpoonup> CacheEntry"
  console :: "string list"

definition CACHE_TTL :: int where
  "CACHE_TTL = 5 * 60 * 1000"

definition logApiUsage :: "Env \<Rightarrow> string \<Rightarrow> AuthState \<Rightarrow> AuthState" where
  "logApiUsage env apiKey st =
     (if NODE_ENV env = Some ''development''
      then st\<lparr>console := console st @ [''API key used: '' @ take 10 apiKey @ ''...'']\<rparr>
      else st)"

text \<open>
  The validity policy of \<^verbatim>\<open>validateApiKey\<close>: the statements after the cache check, which
  compute \<^verbatim>\<open>isValid\<close>, store the cache entry and log the use of a valid key.
  \<^verbatim>\<open>apiKey.length\<close> counts UTF-16 code units and \<open>length\<close> counts bytes, the same number for
  an ASCII key.
\<close>

definition evaluateKey :: "Env \<Rightarrow> int \<Rightarrow> string \<Rightarrow> AuthState \<Rightarrow> bool \<times> AuthState" where
  "evaluateKey env now apiKey st =
     (let validKeys = (case VALID_API_KEYS env of None \<Rightarrow> [] | Some s \<Rightarrow> js_split (CHR '','') s);
          isValidFormat = (startsWith apiKey ''sk-ant-'' \<and> length apiKey > 40);
          isInValidList = (apiKey \<in> set validKeys);
          isTestKey = (apiKey = ''test-api-key-123'');
          isValid = (isValidFormat \<or> isInValidList \<or> isTestKey);
          st1 = st\<lparr>apiKeyCache := (apiKeyCache st)(apiKey \<mapsto>
                  \<lparr>valid = isValid, userId = None, expiresAt = now + CACHE_TTL\<rparr>)\<rparr>;
          st2 = (if isValid then logApiUsage env apiKey st1 else st1)
      in (isValid, st2))"

definition validateApiKey :: "Env \<Rightarrow> int \<Rightarrow> string \<Rightarrow> AuthState \<Rightarrow> bool \<times> AuthState" where
  "validateApiKey env now apiKey st =
     (case apiKeyCache st apiKey of
        None \<Rightarrow> evaluateKey env now apiKey st
      | Some cached \<Rightarrow>
          if expiresAt cached > now then (valid cached, st)
          else evaluateKey env now apiKey st)"

text \<open>
  Rate limiting. \<^verbatim>\<open>hashApiKey\<close> is the SHA-256 digest of the platform's crypto library,
  taken as the argument \<open>hashApiKey\<close>. \<^verbatim>\<open>checkRateLimit\<close> has the same body in
  \<^verbatim>\<open>anthropic-proxy/auth.ts\<close> and in \<^verbatim>\<open>lib/auth.ts\<close>. The window object stored in the map
  is the one whose \<^verbatim>\<open>count\<close> is incremented, so the map holds the incremented count.
\<close>

record RateWindow =
  count :: int
  resetAt :: int

record RateResult =
  allowed :: bool
  remaining :: int
  result_resetAt :: int

definition RATE_LIMIT :: int where
  "RATE_LIMIT = 100"

definition RATE_WINDOW :: int where
  "RATE_WINDOW = 60 * 1000"

definition checkRateLimit ::
    "(string \<Rightarrow> string) \<Rightarrow> int \<Rightarrow> string \<Rightarrow> (string \<rightharpoonup> RateWindow)
     \<Rightarrow> RateResult \<times> (string \<rightharpoonup> RateWindow)" where
  "checkRateLimit hashApiKey now apiKey rateLimitMap =
     (let keyHash = hashApiKey apiKey;
          fresh = \<lparr>count = 0, resetAt = now + RATE_WINDOW\<rparr>;
          limit = (case rateLimitMap keyHash of
                     None \<Rightarrow> fresh
                   | Some l \<Rightarrow> if resetAt l < now then fresh else l);
          limit' = limit\<lparr>count := count limit + 1\<rparr>
      in (\<lparr>allowed = (count limit' \<le> RATE_LIMIT),
           remaining = max 0 (RATE_LIMIT - count limit'),
           result_resetAt = resetAt limit'\<rparr>,
          rateLimitMap(keyHash \<mapsto> limit')))"

text \<open>Successive calls for one key, at the given times; the results in call order.\<close>

fun checkRateLimit_calls ::
    "(string \<Rightarrow> string) \<Rightarrow> string \<Rightarrow> int list \<Rightarrow> (string \<rightharpoonup> RateWindow)
     \<Rightarrow> RateResult list \<times> (string \<rightharpoonup> RateWindow)" where
  "checkRateLimit_calls hashApiKey apiKey [] m = ([], m)"
| "checkRateLimit_calls hashApiKey apiKey (now # later) m =
     (case checkRateLimit hashApiKey now apiKey m of
        (r, m') \<Rightarrow>
          (case checkRateLimit_calls hashApiKey apiKey later m' of
             (rs, m'') \<Rightarrow> (r # rs, m'')))"

section \<open>Request and response transformation\<close>

text \<open>
  The interfaces of \<^verbatim>\<open>request-handler.ts\<close>. An optional field is an \<open>option\<close>. The field
  names carry the initials of their interface, since two interfaces share names.
\<close>

type_synonym number = real

record ContentBlock =
  cb_type :: string
  cb_text :: "string option"

datatype MessageContent = Text string | Blocks "ContentBlock list"

record AnthropicMessage =
  am_role :: string
  am_content :: MessageContent

record OpenRouterMessage =
  om_role :: string
  om_content :: string

record AnthropicRequest =
  areq_model :: string
  areq_messages :: "AnthropicMessage list"
  areq_max_tokens :: "number option"
  areq_temperature :: "number option"
  areq_top_p :: "number option"
  areq_top_k :: "number option"
  areq_metadata :: "jsval option"
  areq_stop_sequences :: "string list option"
  areq_stream :: "bool option"
  areq_system :: "string option"

record OpenRouterRequest =
  oreq_model :: string
  oreq_messages :: "OpenRouterMessage list"
  oreq_max_tokens :: "number option"
  oreq_temperature :: "number option"
  oreq_top_p :: "number option"
  oreq_stream :: "bool option"
  oreq_stop :: "string list option"

record ChoiceMessage =
  cm_role :: string
  cm_content :: string

record Choice =
  ch_index :: number
  ch_message :: ChoiceMessage
  ch_finish_reason :: string

record Usage =
  prompt_tokens :: number
  completion_tokens :: number
  total_tokens :: number

text \<open>
  The interface declares \<^verbatim>\<open>choices\<close> as required, and the value is the unchecked JSON body
  of the upstream response, so the model has the missing field too: \<open>None\<close>.
\<close>

record OpenRouterResponse =
  ores_id :: string
  ores_object :: string
  ores_created :: number
  ores_model :: string
  ores_choices :: "Choice list option"
  ores_usage :: "Usage option"

record TextBlock =
  tb_type :: string
  tb_text :: string

record AnthropicUsage =
  input_tokens :: number
  output_tokens :: number

record AnthropicResponse =
  ares_id :: string
  ares_type :: string
  ares_role :: string
  ares_content :: "TextBlock list"
  ares_model :: string
  ares_stop_reason :: "string option"
  ares_stop_sequence :: "string option"
  ares_usage :: AnthropicUsage

text \<open>\<^verbatim>\<open>parts.join('\n')\<close>.\<close>

fun join_newline :: "string list \<Rightarrow> string" where
  "join_newline [] = []"
| "join_newline [p] = p"
| "join_newline (p # q # ps) = p @ [CHR 0x0A] @ join_newline (q # ps)"

text \<open>
  The loop of \<^verbatim>\<open>extractContent\<close> over the content blocks; a block pushes its text when its
  type is \<^verbatim>\<open>text\<close> and the text is truthy (present and not empty), and the placeholder
  when its type is \<^verbatim>\<open>image\<close>.
\<close>

fun textParts :: "ContentBlock list \<Rightarrow> string list" where
  "textParts [] = []"
| "textParts (block # blocks) =
     (if cb_type block = ''text'' \<and> cb_text block \<noteq> None \<and> cb_text block \<noteq> Some []
      then [the (cb_text block)] else [])
     @ (if cb_type block = ''image''
        then [''[Image content not supported in this proxy]''] else [])
     @ textParts blocks"

fun extractContent :: "MessageContent \<Rightarrow> string" where
  "extractContent (Text content) = content"
| "extractContent (Blocks content) = join_newline (textParts content)"

text \<open>The loop of \<^verbatim>\<open>transformToOpenRouter\<close> over the messages of the request.\<close>

fun transformMessages :: "AnthropicMessage list \<Rightarrow> OpenRouterMessage list" where
  "transformMessages [] = []"
| "transformMessages (msg # msgs) =
     \<lparr>om_role = am_role msg, om_content = extractContent (am_content msg)\<rparr>
     # transformMessages msgs"

text \<open>
  \<^verbatim>\<open>transformToOpenRouter\<close>. \<^verbatim>\<open>if (this.request.system)\<close> tests for a truthy value: a
  string that is present and not empty. \<^verbatim>\<open>if (this.request.stop_sequences)\<close> holds for
  every array, the empty one too.
\<close>

definition transformToOpenRouter :: "AnthropicRequest \<Rightarrow> OpenRouterRequest" where
  "transformToOpenRouter request =
     (let openRouterModel = areq_model request;
          system_messages =
            (case areq_system request of
               None \<Rightarrow> []
             | Some s \<Rightarrow> if s \<noteq> [] then [\<lparr>om_role = ''system'', om_content = s\<rparr>] else []);
          messages = system_messages @ transformMessages (areq_messages request)
      in \<lparr>oreq_model = openRouterModel,
          oreq_messages = messages,
          oreq_max_tokens = areq_max_tokens request,
          oreq_temperature = areq_temperature request,
          oreq_top_p = areq_top_p request,
          oreq_stream = Some (case areq_stream request of None \<Rightarrow> False | Some b \<Rightarrow> b),
          oreq_stop = areq_stop_sequences request\<rparr>)"

text \<open>\<^verbatim>\<open>x || 0\<close> on a number.\<close>

definition or_zero :: "number \<Rightarrow> number" where
  "or_zero x = (if x \<noteq> 0 then x else 0)"

text \<open>
  \<^verbatim>\<open>transformToAnthropicResponse\<close>. \<^verbatim>\<open>openRouterResponse.choices[0]\<close> throws a
  \<^verbatim>\<open>TypeError\<close> when \<^verbatim>\<open>choices\<close> is missing, and is \<^verbatim>\<open>undefined\<close> when the array is empty;
  then \<^verbatim>\<open>choice.message\<close> throws a \<^verbatim>\<open>TypeError\<close>. The function has no \<^verbatim>\<open>try\<close> and no check
  of its own.
\<close>

definition transformToAnthropicResponse ::
    "AnthropicRequest \<Rightarrow> OpenRouterResponse \<Rightarrow> error + AnthropicResponse" where
  "transformToAnthropicResponse request openRouterResponse =
     (case ores_choices openRouterResponse of
        None \<Rightarrow> Inl TypeError
      | Some [] \<Rightarrow> Inl TypeError
      | Some (choice # _) \<Rightarrow>
          Inr \<lparr>ares_id = ores_id openRouterResponse,
               ares_type = ''message'',
               ares_role = ''assistant'',
               ares_content = [\<lparr>tb_type = ''text'', tb_text = cm_content (ch_message choice)\<rparr>],
               ares_model = areq_model request,
               ares_stop_reason = Some (mapFinishReason (ch_finish_reason choice)),
               ares_stop_sequence = None,
               ares_usage =
                 \<lparr>input_tokens =
                    (case ores_usage openRouterResponse of
                       None \<Rightarrow> 0 | Some u \<Rightarrow> or_zero (prompt_tokens u)),
                  output_tokens =
                    (case ores_usage openRouterResponse of
                       None \<Rightarrow> 0 | Some u \<Rightarrow> or_zero (completion_tokens u))\<rparr>\<rparr>)"

section \<open>Properties of the finish-reason mapping\<close>

text \<open>CLAIM C8:
  the finish-reason mapping sends \<open>stop\<close> to \<open>end_turn\<close>, \<open>length\<close> to \<open>max_tokens\<close>,
  \<open>content_filter\<close> to \<open>stop_sequence\<close> and every other string to itself, in the response
  transcoder's copy and in both stream transcoders' copies; being a total function it
  yields a string for every string.\<close>

theorem mapFinishReason_table:
  "mapFinishReason ''stop'' = ''end_turn''
   \<and> mapFinishReason ''length'' = ''max_tokens''
   \<and> mapFinishReason ''content_filter'' = ''stop_sequence''
   \<and> (s \<notin> {''stop'', ''length'', ''content_filter''} \<longrightarrow> mapFinishReason s = s)
   \<and> SRH_mapFinishReason (JStr s) = JStr (mapFinishReason s)
   \<and> Express_mapFinishReason (JStr s) = JStr (mapFinishReason s)"
  by (simp add: mapFinishReason_def SRH_mapFinishReason_def Express_mapFinishReason_def)

theorem mapFinishReason_table_witness:
  "''foo'' \<notin> {''stop'', ''length'', ''content_filter''}
   \<and> mapFinishReason ''foo'' = ''foo''
   \<and> SRH_mapFinishReason (JStr ''foo'') = JStr ''foo''
   \<and> Express_mapFinishReason (JStr ''foo'') = JStr ''foo''
   \<and> mapFinishReason ''stop'' = ''end_turn''"
  using mapFinishReason_table [of "''foo''"] by simp

section \<open>Properties of the stream handlers\<close>

subsection \<open>Splitting and the line loops\<close>

lemma split_from_append:
  "split_from sep cur (a @ sep # b) = split_from sep cur a @ split_from sep [] b"
  by (induction a arbitrary: cur) auto

lemma js_split_append:
  "js_split sep (a @ sep # b) = js_split sep a @ js_split sep b"
  by (simp add: js_split_def split_from_append)

lemma js_split_Nil: "js_split sep [] = [[]]"
  by (simp add: js_split_def)

lemma SRH_lines_append:
  "SRH_lines parse (xs @ ys) = SRH_lines parse xs @ SRH_lines parse ys"
  by (induction xs) auto

lemma Express_lines_append:
  "Express_lines parse (xs @ ys) = Express_lines parse xs @ Express_lines parse ys"
  by (induction xs) auto

subsection \<open>The two implementations\<close>

lemma mapFinishReason_copies: "Express_mapFinishReason = SRH_mapFinishReason"
  by (rule ext) (simp add: Express_mapFinishReason_def SRH_mapFinishReason_def)

lemma transformStreamChunk_copies: "transformStreamChunk = SRH_transformStreamChunk"
  by (rule ext)
    (simp only: transformStreamChunk_def SRH_transformStreamChunk_def mapFinishReason_copies)

lemma Express_line_filter: "Express_line parse line = filter is_Data (SRH_line parse line)"
  by (simp add: Express_line_def SRH_line_def transformStreamChunk_copies
      createAnthropicStreamEnd_def Let_def split: option.splits sum.splits)

lemma Express_lines_filter: "Express_lines parse ls = filter is_Data (SRH_lines parse ls)"
  by (induction ls) (simp_all add: Express_line_filter)

lemma read_loop_filter: "read_loop parse chunks = filter is_Data (handleStream parse chunks)"
  by (induction chunks) (simp_all add: Express_lines_filter transform_def)

text \<open>CLAIM C4, as stated:
  the edge transform and the Express loop emit the identical sequence of output frames for
  every sequence of chunks. This fails on the one-chunk stream \<^verbatim>\<open>data: [DONE]\n\<close>: the edge
  transform enqueues the \<^verbatim>\<open>message_stop\<close> frame, the line \<^verbatim>\<open>event: message_stop\<close> and a
  newline for the empty last line, the Express loop writes the \<^verbatim>\<open>message_stop\<close> frame
  only.\<close>

theorem stream_handlers_differ:
  "handleStream JSON_parse [''data: [DONE]\<newline>'']
     = [Data (JObj [(''type'', JStr ''message_stop'')]), Raw ''event: message_stop\<newline>\<newline>'',
        Raw ''\<newline>'']
   \<and> handleStreamingResponse JSON_parse (Some [''data: [DONE]\<newline>''])
     = [Data (JObj [(''type'', JStr ''message_stop'')])]"
  by code_simp

text \<open>CLAIM C4, amended:
  for every sequence of chunks the Express loop writes exactly the \<^verbatim>\<open>data:\<close> frames the edge
  transform enqueues, the same values in the same order; the edge transform enqueues in
  addition its literal lines (\<^verbatim>\<open>event: message_stop\<close> after a \<^verbatim>\<open>[DONE]\<close> line, a newline for
  a blank line).\<close>

theorem express_writes_data_frames_of_edge:
  "handleStreamingResponse parse (Some chunks) = filter is_Data (handleStream parse chunks)"
  by (simp add: handleStreamingResponse_def read_loop_filter)

subsection \<open>Chunk boundaries\<close>

lemma read_loop_append:
  "read_loop parse (xs @ ys) = read_loop parse xs @ read_loop parse ys"
  by (induction xs) auto

lemma handleStream_append:
  "handleStream parse (xs @ ys) = handleStream parse xs @ handleStream parse ys"
  by (induction xs) auto

lemma Express_line_Nil: "Express_line parse [] = []"
  by (simp add: Express_line_def startsWith_def)

lemma read_loop_snoc_newline:
  "read_loop parse ((c' @ [CHR 0x0A]) # cs) = read_loop parse [c' @ CHR 0x0A # concat cs]"
  if "read_loop parse cs = read_loop parse [concat cs]"
proof -
  have "js_split (CHR 0x0A) (c' @ [CHR 0x0A]) = js_split (CHR 0x0A) c' @ [[]]"
    by (simp add: js_split_append js_split_Nil)
  then have "read_loop parse ((c' @ [CHR 0x0A]) # cs)
      = Express_lines parse (js_split (CHR 0x0A) c') @ read_loop parse [concat cs]"
    using that by (simp add: Express_lines_append Express_line_Nil)
  also have "\<dots> = Express_lines parse (js_split (CHR 0x0A) (c' @ CHR 0x0A # concat cs))"
    by (simp add: js_split_append Express_lines_append)
  finally show ?thesis by simp
qed

lemma read_loop_concat:
  "\<forall>c \<in> set (butlast chunks). c = [] \<or> last c = CHR 0x0A
   \<Longrightarrow> read_loop parse chunks = read_loop parse [concat chunks]"
proof (induction chunks)
  case Nil
  show ?case by (simp add: js_split_Nil Express_line_Nil)
next
  case (Cons c cs)
  show ?case
  proof (cases "cs = []")
    case True
    then show ?thesis by simp
  next
    case False
    with Cons.prems have c: "c = [] \<or> last c = CHR 0x0A" and
      rest: "\<forall>d \<in> set (butlast cs). d = [] \<or> last d = CHR 0x0A"
      by auto
    note IH = Cons.IH [OF rest]
    show ?thesis
    proof (cases "c = []")
      case True
      then show ?thesis using IH by (simp add: js_split_Nil Express_line_Nil)
    next
      case False
      with c obtain c' where c_eq: "c = c' @ [CHR 0x0A]"
        by (metis append_butlast_last_id)
      have "read_loop parse ((c' @ [CHR 0x0A]) # cs) = read_loop parse [c' @ CHR 0x0A # concat cs]"
        by (rule read_loop_snoc_newline) (rule IH)
      then show ?thesis
        unfolding c_eq by simp
    qed
  qed
qed

text \<open>CLAIM C1, as stated:
  feeding a byte sequence in any split into chunks emits the same events as feeding it in
  one chunk, also when a \<^verbatim>\<open>data:\<close> line is split across two chunks. This fails: a line split
  inside its JSON payload emits no event in either handler, the unsplit line emits a
  \<^verbatim>\<open>content_block_delta\<close> event.\<close>

theorem split_line_not_reassembled:
  "handleStreamingResponse JSON_parse
      (Some [''data: {\"choices\":[{\"delta\":{\"con'', ''tent\":\"Hi\"}}]}\<newline>'']) = []
   \<and> handleStreamingResponse JSON_parse
      (Some [''data: {\"choices\":[{\"delta\":{\"content\":\"Hi\"}}]}\<newline>''])
     = [Data (JObj [(''type'', JStr ''content_block_delta''), (''index'', JNum 0 0),
          (''delta'', JObj [(''type'', JStr ''text_delta''), (''text'', JStr ''Hi'')])])]
   \<and> filter is_Data (handleStream JSON_parse
      [''data: {\"choices\":[{\"delta\":{\"con'', ''tent\":\"Hi\"}}]}\<newline>'']) = []
   \<and> filter is_Data (handleStream JSON_parse
      [''data: {\"choices\":[{\"delta\":{\"content\":\"Hi\"}}]}\<newline>''])
     = [Data (JObj [(''type'', JStr ''content_block_delta''), (''index'', JNum 0 0),
          (''delta'', JObj [(''type'', JStr ''text_delta''), (''text'', JStr ''Hi'')])])]"
  by code_simp

text \<open>CLAIM C1, amended:
  the handlers keep no text from one chunk to the next, so what a sequence of chunks emits
  is what its chunks emit one after the other; feeding the chunks in order emits the same
  events as feeding their concatenation in one chunk whenever every chunk but the last is
  empty or ends with a newline, that is, whenever no line is split.\<close>

theorem chunks_transcoded_separately:
  "handleStreamingResponse parse (Some (cs1 @ cs2))
     = handleStreamingResponse parse (Some cs1) @ handleStreamingResponse parse (Some cs2)
   \<and> handleStream parse (cs1 @ cs2) = handleStream parse cs1 @ handleStream parse cs2
   \<and> ((\<forall>c \<in> set (butlast chunks). c = [] \<or> last c = CHR 0x0A) \<longrightarrow>
        handleStreamingResponse parse (Some chunks)
          = handleStreamingResponse parse (Some [concat chunks])
        \<and> filter is_Data (handleStream parse chunks)
          = filter is_Data (handleStream parse [concat chunks]))"
proof (intro conjI impI)
  assume aligned: "\<forall>c \<in> set (butlast chunks). c = [] \<or> last c = CHR 0x0A"
  show "handleStreamingResponse parse (Some chunks)
      = handleStreamingResponse parse (Some [concat chunks])"
    using read_loop_concat [OF aligned] by (simp add: handleStreamingResponse_def)
  show "filter is_Data (handleStream parse chunks)
      = filter is_Data (handleStream parse [concat chunks])"
    using read_loop_concat [OF aligned] by (simp only: read_loop_filter)
qed (simp_all add: handleStreamingResponse_def read_loop_append handleStream_append)

theorem chunks_transcoded_separately_witness:
  "handleStreamingResponse JSON_parse
        (Some [''data: [DONE]\<newline>'', ''data: {\"choices\":[{\"delta\":{\"content\":\"Hi\"}}]}\<newline>''])
     = handleStreamingResponse JSON_parse
        (Some [concat [''data: [DONE]\<newline>'', ''data: {\"choices\":[{\"delta\":{\"content\":\"Hi\"}}]}\<newline>'']])
   \<and> handleStreamingResponse JSON_parse
        (Some [''data: [DONE]\<newline>'', ''data: {\"choices\":[{\"delta\":{\"content\":\"Hi\"}}]}\<newline>''])
     = [Data (JObj [(''type'', JStr ''message_stop'')]),
        Data (JObj [(''type'', JStr ''content_block_delta''), (''index'', JNum 0 0),
          (''delta'', JObj [(''type'', JStr ''text_delta''), (''text'', JStr ''Hi'')])])]"
proof -
  let ?chunks = "[''data: [DONE]\<newline>'', ''data: {\"choices\":[{\"delta\":{\"content\":\"Hi\"}}]}\<newline>'']"
  have aligned: "\<forall>c \<in> set (butlast ?chunks). c = [] \<or> last c = CHR 0x0A"
    by simp
  have "handleStreamingResponse JSON_parse (Some ?chunks)
      = handleStreamingResponse JSON_parse (Some [concat ?chunks])"
    using chunks_transcoded_separately [of JSON_parse "[]" "[]" ?chunks] aligned by blast
  moreover have "handleStreamingResponse JSON_parse (Some ?chunks)
     = [Data (JObj [(''type'', JStr ''message_stop'')]),
        Data (JObj [(''type'', JStr ''content_block_delta''), (''index'', JNum 0 0),
          (''delta'', JObj [(''type'', JStr ''text_delta''), (''text'', JStr ''Hi'')])])]"
    by code_simp
  ultimately show ?thesis by blast
qed

subsection \<open>The \<^verbatim>\<open>[DONE]\<close> line\<close>

text \<open>CLAIM C2, as stated:
  a line \<^verbatim>\<open>data: [DONE]\<close> emits exactly one \<^verbatim>\<open>message_stop\<close> event and no later line of the
  same chunk is processed into an event. This fails: the loop goes on with the next line
  (\<^verbatim>\<open>continue\<close>), and a \<^verbatim>\<open>data:\<close> line after \<^verbatim>\<open>[DONE]\<close> in the same chunk emits its event.\<close>

theorem done_line_is_not_terminal:
  "handleStreamingResponse JSON_parse
      (Some [''data: [DONE]\<newline>data: {\"choices\":[{\"delta\":{\"content\":\"Hi\"}}]}\<newline>''])
     = [Data (JObj [(''type'', JStr ''message_stop'')]),
        Data (JObj [(''type'', JStr ''content_block_delta''), (''index'', JNum 0 0),
          (''delta'', JObj [(''type'', JStr ''text_delta''), (''text'', JStr ''Hi'')])])]
   \<and> handleStream JSON_parse
      [''data: [DONE]\<newline>data: {\"choices\":[{\"delta\":{\"content\":\"Hi\"}}]}\<newline>'']
     = [Data (JObj [(''type'', JStr ''message_stop'')]),
        Raw ''event: message_stop\<newline>\<newline>'',
        Data (JObj [(''type'', JStr ''content_block_delta''), (''index'', JNum 0 0),
          (''delta'', JObj [(''type'', JStr ''text_delta''), (''text'', JStr ''Hi'')])]),
        Raw ''\<newline>'']"
  by code_simp

lemma SRH_line_DONE:
  "SRH_line parse ''data: [DONE]''
     = [Data (JObj [(''type'', JStr ''message_stop'')]), Raw ''event: message_stop\<newline>\<newline>'']"
  by (simp add: SRH_line_def startsWith_def createAnthropicStreamEnd_def)

lemma Express_line_DONE:
  "Express_line parse ''data: [DONE]'' = [Data (JObj [(''type'', JStr ''message_stop'')])]"
  by (simp add: Express_line_def startsWith_def)

text \<open>CLAIM C2, amended:
  a line \<^verbatim>\<open>data: [DONE]\<close> emits exactly one \<^verbatim>\<open>message_stop\<close> data frame, in the edge handler
  followed by the line \<^verbatim>\<open>event: message_stop\<close>; the lines before it and the lines after it
  in the same chunk are processed as they are without it.\<close>

theorem done_line_emits_message_stop:
  assumes "js_split (CHR 0x0A) chunk = before @ [''data: [DONE]''] @ after"
  shows "transform parse chunk
           = SRH_lines parse before
             @ [Data (JObj [(''type'', JStr ''message_stop'')]),
                Raw ''event: message_stop\<newline>\<newline>'']
             @ SRH_lines parse after
    \<and> handleStreamingResponse parse (Some [chunk])
           = Express_lines parse before
             @ [Data (JObj [(''type'', JStr ''message_stop'')])]
             @ Express_lines parse after"
  using assms
  by (simp add: transform_def handleStreamingResponse_def SRH_lines_append
      Express_lines_append SRH_line_DONE Express_line_DONE)

theorem done_line_emits_message_stop_witness:
  "js_split (CHR 0x0A) ''data: [DONE]\<newline>data: {\"choices\":[{\"delta\":{\"content\":\"Hi\"}}]}\<newline>''
     = [] @ [''data: [DONE]''] @ [''data: {\"choices\":[{\"delta\":{\"content\":\"Hi\"}}]}'', []]
   \<and> handleStreamingResponse JSON_parse
       (Some [''data: [DONE]\<newline>data: {\"choices\":[{\"delta\":{\"content\":\"Hi\"}}]}\<newline>''])
     = [Data (JObj [(''type'', JStr ''message_stop'')]),
        Data (JObj [(''type'', JStr ''content_block_delta''), (''index'', JNum 0 0),
          (''delta'', JObj [(''type'', JStr ''text_delta''), (''text'', JStr ''Hi'')])])]"
proof -
  let ?chunk = "''data: [DONE]\<newline>data: {\"choices\":[{\"delta\":{\"content\":\"Hi\"}}]}\<newline>''"
  let ?after = "[''data: {\"choices\":[{\"delta\":{\"content\":\"Hi\"}}]}'', []]"
  have lines: "js_split (CHR 0x0A) ?chunk = [] @ [''data: [DONE]''] @ ?after"
    by code_simp
  have after: "Express_lines JSON_parse ?after
     = [Data (JObj [(''type'', JStr ''content_block_delta''), (''index'', JNum 0 0),
          (''delta'', JObj [(''type'', JStr ''text_delta''), (''text'', JStr ''Hi'')])])]"
    by code_simp
  from done_line_emits_message_stop [OF lines, of JSON_parse]
  have "handleStreamingResponse JSON_parse (Some [?chunk])
      = Express_lines JSON_parse [] @ [Data (JObj [(''type'', JStr ''message_stop'')])]
        @ Express_lines JSON_parse ?after"
    by blast
  then show ?thesis using lines by (simp only: after Express_lines.simps(1) append_Nil append_Cons simp_thms)
qed

subsection \<open>Malformed frames\<close>

lemma SRH_line_malformed:
  "startsWith line ''data: '' \<Longrightarrow> drop 6 line \<noteq> ''[DONE]'' \<Longrightarrow> parse (drop 6 line) = None
   \<Longrightarrow> SRH_line parse line = []"
  by (simp add: SRH_line_def)

lemma Express_line_malformed:
  "startsWith line ''data: '' \<Longrightarrow> drop 6 line \<noteq> ''[DONE]'' \<Longrightarrow> parse (drop 6 line) = None
   \<Longrightarrow> Express_line parse line = []"
  by (simp add: Express_line_def)

text \<open>CLAIM C10:
  a line that has the \<^verbatim>\<open>data: \<close> prefix, is not the \<^verbatim>\<open>[DONE]\<close> line, and whose payload
  \<^verbatim>\<open>JSON.parse\<close> rejects emits nothing, in both handlers, and the lines before and after it
  in the chunk emit what they emit without it: the stream is not aborted.\<close>

theorem malformed_line_is_skipped:
  assumes "js_split (CHR 0x0A) chunk = before @ [line] @ after"
    and "startsWith line ''data: ''"
    and "drop 6 line \<noteq> ''[DONE]''"
    and "parse (drop 6 line) = None"
  shows "transform parse chunk = SRH_lines parse before @ SRH_lines parse after
    \<and> handleStreamingResponse parse (Some [chunk])
        = Express_lines parse before @ Express_lines parse after"
  using assms
  by (simp add: transform_def handleStreamingResponse_def SRH_lines_append
      Express_lines_append SRH_line_malformed Express_line_malformed)

theorem malformed_line_is_skipped_witness:
  "js_split (CHR 0x0A) ''data: {oops\<newline>data: {\"choices\":[{\"delta\":{\"content\":\"Hi\"}}]}\<newline>''
     = [] @ [''data: {oops''] @ [''data: {\"choices\":[{\"delta\":{\"content\":\"Hi\"}}]}'', []]
   \<and> startsWith ''data: {oops'' ''data: ''
   \<and> drop 6 ''data: {oops'' \<noteq> ''[DONE]''
   \<and> JSON_parse (drop 6 ''data: {oops'') = None
   \<and> handleStreamingResponse JSON_parse
       (Some [''data: {oops\<newline>data: {\"choices\":[{\"delta\":{\"content\":\"Hi\"}}]}\<newline>''])
     = [Data (JObj [(''type'', JStr ''content_block_delta''), (''index'', JNum 0 0),
          (''delta'', JObj [(''type'', JStr ''text_delta''), (''text'', JStr ''Hi'')])])]
   \<and> transform JSON_parse
       ''data: {oops\<newline>data: {\"choices\":[{\"delta\":{\"content\":\"Hi\"}}]}\<newline>''
     = [Data (JObj [(''type'', JStr ''content_block_delta''), (''index'', JNum 0 0),
          (''delta'', JObj [(''type'', JStr ''text_delta''), (''text'', JStr ''Hi'')])]),
        Raw ''\<newline>'']"
proof -
  let ?chunk = "''data: {oops\<newline>data: {\"choices\":[{\"delta\":{\"content\":\"Hi\"}}]}\<newline>''"
  let ?after = "[''data: {\"choices\":[{\"delta\":{\"content\":\"Hi\"}}]}'', []]"
  have lines: "js_split (CHR 0x0A) ?chunk = [] @ [''data: {oops''] @ ?after"
    by code_simp
  have prefix: "startsWith ''data: {oops'' ''data: ''"
    by code_simp
  have not_done: "drop 6 ''data: {oops'' \<noteq> ''[DONE]''"
    by simp
  have malformed: "JSON_parse (drop 6 ''data: {oops'') = None"
    by code_simp
  have after: "Express_lines JSON_parse ?after
     = [Data (JObj [(''type'', JStr ''content_block_delta''), (''index'', JNum 0 0),
          (''delta'', JObj [(''type'', JStr ''text_delta''), (''text'', JStr ''Hi'')])])]"
    by code_simp
  have after': "SRH_lines JSON_parse ?after
     = [Data (JObj [(''type'', JStr ''content_block_delta''), (''index'', JNum 0 0),
          (''delta'', JObj [(''type'', JStr ''text_delta''), (''text'', JStr ''Hi'')])]),
        Raw ''\<newline>'']"
    by code_simp
  from malformed_line_is_skipped [where parse = JSON_parse and chunk = ?chunk
      and line = "''data: {oops''" and before = "[]" and after = ?after,
      OF lines prefix not_done malformed]
  have "transform JSON_parse ?chunk = SRH_lines JSON_parse [] @ SRH_lines JSON_parse ?after"
    and "handleStreamingResponse JSON_parse (Some [?chunk])
      = Express_lines JSON_parse [] @ Express_lines JSON_parse ?after"
    by blast+
  then show ?thesis using lines prefix not_done malformed
    by (simp only: after after' Express_lines.simps(1) SRH_lines.simps(1) append_Nil simp_thms)
qed

section \<open>Properties of the admission layer\<close>

lemma checkRateLimit_fresh:
  assumes "case m (h k) of None \<Rightarrow> True | Some w \<Rightarrow> resetAt w < now"
  shows "checkRateLimit h now k m
    = (\<lparr>allowed = True, remaining = 99, result_resetAt = now + RATE_WINDOW\<rparr>,
       m(h k \<mapsto> \<lparr>count = 1, resetAt = now + RATE_WINDOW\<rparr>))"
  using assms
  by (auto simp: checkRateLimit_def Let_def RATE_LIMIT_def split: option.splits)

lemma checkRateLimit_in_window:
  assumes "m (h k) = Some \<lparr>count = c, resetAt = r\<rparr>" and "now \<le> r"
  shows "checkRateLimit h now k m
    = (\<lparr>allowed = (c + 1 \<le> 100), remaining = max 0 (100 - (c + 1)), result_resetAt = r\<rparr>,
       m(h k \<mapsto> \<lparr>count = c + 1, resetAt = r\<rparr>))"
  using assms
  by (simp add: checkRateLimit_def Let_def RATE_LIMIT_def)

lemma calls_in_window:
  assumes "m (h k) = Some \<lparr>count = c, resetAt = r\<rparr>" and "\<forall>t \<in> set ts. t \<le> r"
  shows "length (fst (checkRateLimit_calls h k ts m)) = length ts
    \<and> (\<forall>i < length ts. fst (checkRateLimit_calls h k ts m) ! i
          = \<lparr>allowed = (c + int i + 1 \<le> 100), remaining = max 0 (100 - (c + int i + 1)),
             result_resetAt = r\<rparr>)
    \<and> snd (checkRateLimit_calls h k ts m) (h k)
          = Some \<lparr>count = c + int (length ts), resetAt = r\<rparr>"
  using assms
proof (induction ts arbitrary: m c)
  case Nil
  then show ?case by simp
next
  case (Cons t ts)
  let ?m' = "m(h k \<mapsto> \<lparr>count = c + 1, resetAt = r\<rparr>)"
  let ?r1 = "\<lparr>allowed = (c + 1 \<le> 100), remaining = max 0 (100 - (c + 1)), result_resetAt = r\<rparr>"
  have step: "checkRateLimit h t k m = (?r1, ?m')"
    using Cons.prems by (intro checkRateLimit_in_window [where m = m and h = h and k = k]) auto
  have m': "?m' (h k) = Some \<lparr>count = c + 1, resetAt = r\<rparr>" by simp
  have later: "\<forall>t \<in> set ts. t \<le> r" using Cons.prems by simp
  obtain rs m'' where run: "checkRateLimit_calls h k ts ?m' = (rs, m'')"
    by (cases "checkRateLimit_calls h k ts ?m'")
  note IH = Cons.IH [where m = ?m' and c = "c + 1", OF m' later, unfolded run fst_conv snd_conv]
  from IH have len: "length rs = length ts"
    and nth: "\<And>i. i < length ts \<Longrightarrow> rs ! i
      = \<lparr>allowed = (c + 1 + int i + 1 \<le> 100), remaining = max 0 (100 - (c + 1 + int i + 1)),
         result_resetAt = r\<rparr>"
    and fin: "m'' (h k) = Some \<lparr>count = c + 1 + int (length ts), resetAt = r\<rparr>"
    by blast+
  have whole: "checkRateLimit_calls h k (t # ts) m = (?r1 # rs, m'')"
    by (simp add: step run)
  have "\<And>i. i < length (t # ts) \<Longrightarrow> (?r1 # rs) ! i
        = \<lparr>allowed = (c + int i + 1 \<le> 100), remaining = max 0 (100 - (c + int i + 1)),
           result_resetAt = r\<rparr>"
  proof -
    fix i assume i: "i < length (t # ts)"
    show "(?r1 # rs) ! i
        = \<lparr>allowed = (c + int i + 1 \<le> 100), remaining = max 0 (100 - (c + int i + 1)),
           result_resetAt = r\<rparr>"
    proof (cases i)
      case 0
      then show ?thesis by simp
    next
      case (Suc j)
      with i have "j < length ts" by simp
      from nth [OF this] show ?thesis using Suc by (simp add: add.commute add.left_commute)
    qed
  qed
  moreover have "m'' (h k) = Some \<lparr>count = c + int (length (t # ts)), resetAt = r\<rparr>"
    using fin by (simp add: add.assoc)
  ultimately show ?case
    unfolding whole fst_conv snd_conv using len by simp
qed

text \<open>CLAIM C5:
  for one key, let the first call at time \<open>t1\<close> find no window or a window whose
  \<^verbatim>\<open>resetAt\<close> has passed, and let the later calls come at times not past
  \<open>t1 + RATE_WINDOW\<close>. Then the first call opens a window with \<^verbatim>\<open>resetAt = t1 + 60000\<close>, the
  \<open>N\<close>th call returns \<^verbatim>\<open>allowed = (N \<le> 100)\<close> and \<^verbatim>\<open>remaining = max(0, 100 - N)\<close>, and the
  stored count is the number of calls made, rejected ones included.\<close>

theorem checkRateLimit_fixed_window:
  assumes fresh: "case m (h k) of None \<Rightarrow> True | Some w \<Rightarrow> resetAt w < t1"
    and within: "\<forall>t \<in> set later. t \<le> t1 + RATE_WINDOW"
    and N: "1 \<le> N" "N \<le> length (t1 # later)"
  shows "fst (checkRateLimit_calls h k (t1 # later) m) ! (N - 1)
           = \<lparr>allowed = (int N \<le> 100), remaining = max 0 (100 - int N),
              result_resetAt = t1 + RATE_WINDOW\<rparr>
    \<and> snd (checkRateLimit_calls h k (t1 # later) m) (h k)
           = Some \<lparr>count = int (length (t1 # later)), resetAt = t1 + RATE_WINDOW\<rparr>"
proof -
  let ?m' = "m(h k \<mapsto> \<lparr>count = 1, resetAt = t1 + RATE_WINDOW\<rparr>)"
  let ?r1 = "\<lparr>allowed = True, remaining = 99, result_resetAt = t1 + RATE_WINDOW\<rparr>"
  have first: "checkRateLimit h t1 k m = (?r1, ?m')"
    using fresh by (rule checkRateLimit_fresh [where m = m and h = h and k = k and now = t1])
  have m': "?m' (h k) = Some \<lparr>count = 1, resetAt = t1 + RATE_WINDOW\<rparr>" by simp
  obtain rs m'' where run: "checkRateLimit_calls h k later ?m' = (rs, m'')"
    by (cases "checkRateLimit_calls h k later ?m'")
  note rest = calls_in_window [where m = ?m' and h = h and k = k and c = 1
      and r = "t1 + RATE_WINDOW" and ts = later, OF m' within, unfolded run fst_conv snd_conv]
  from rest have nth: "\<And>i. i < length later \<Longrightarrow> rs ! i
      = \<lparr>allowed = (1 + int i + 1 \<le> 100), remaining = max 0 (100 - (1 + int i + 1)),
         result_resetAt = t1 + RATE_WINDOW\<rparr>"
    and fin: "m'' (h k) = Some \<lparr>count = 1 + int (length later), resetAt = t1 + RATE_WINDOW\<rparr>"
    by blast+
  have whole: "checkRateLimit_calls h k (t1 # later) m = (?r1 # rs, m'')"
    by (simp add: first run)
  have "(?r1 # rs) ! (N - 1)
      = \<lparr>allowed = (int N \<le> 100), remaining = max 0 (100 - int N),
         result_resetAt = t1 + RATE_WINDOW\<rparr>"
  proof (cases "N = 1")
    case True
    then show ?thesis by simp
  next
    case False
    with N obtain j where j: "N = Suc (Suc j)" "j < length later"
      by (cases N; cases "N - 1") auto
    from nth [OF j(2)] show ?thesis using j by (simp add: add.commute add.left_commute)
  qed
  moreover have "m'' (h k) = Some \<lparr>count = int (length (t1 # later)), resetAt = t1 + RATE_WINDOW\<rparr>"
    using fin by simp
  ultimately show ?thesis
    unfolding whole fst_conv snd_conv by simp
qed

theorem checkRateLimit_fixed_window_witness:
  "(case Map.empty ((\<lambda>k. k) ''key'') of None \<Rightarrow> True | Some w \<Rightarrow> resetAt w < 1000)
   \<and> (1::nat) \<le> 101 \<and> 101 \<le> length (1000 # replicate 100 (61000::int))
   \<and> fst (checkRateLimit_calls (\<lambda>k. k) ''key'' (1000 # replicate 100 61000) Map.empty) ! 100
       = \<lparr>allowed = False, remaining = 0, result_resetAt = 61000\<rparr>
   \<and> snd (checkRateLimit_calls (\<lambda>k. k) ''key'' (1000 # replicate 100 61000) Map.empty) ''key''
       = Some \<lparr>count = 101, resetAt = 61000\<rparr>"
proof -
  have fresh: "case Map.empty ((\<lambda>k. k) ''key'') of None \<Rightarrow> True | Some w \<Rightarrow> resetAt w < 1000"
    by simp
  have within: "\<forall>t \<in> set (replicate 100 (61000::int)). t \<le> 1000 + RATE_WINDOW"
    by (simp add: RATE_WINDOW_def)
  have N: "(1::nat) \<le> 101" "101 \<le> length (1000 # replicate 100 (61000::int))"
    by simp_all
  from checkRateLimit_fixed_window [where h = "\<lambda>k. k" and k = "''key''" and m = Map.empty
      and ?t1.0 = 1000 and later = "replicate 100 61000" and N = 101, OF fresh within N]
  show ?thesis using fresh
    by (simp add: RATE_WINDOW_def del: checkRateLimit_calls.simps)
qed

lemma evaluateKey_entry:
  "apiKeyCache (snd (evaluateKey env now k st)) k
     = Some \<lparr>valid = fst (evaluateKey env now k st), userId = None, expiresAt = now + CACHE_TTL\<rparr>"
  by (simp add: evaluateKey_def Let_def logApiUsage_def)

lemma validateApiKey_hit:
  "apiKeyCache st k = Some e \<Longrightarrow> now < expiresAt e \<Longrightarrow> validateApiKey env now k st = (valid e, st)"
  by (simp add: validateApiKey_def)

text \<open>CLAIM C9, as stated:
  a second call of \<^verbatim>\<open>validateApiKey\<close> for the same key, made while the cache entry's
  \<^verbatim>\<open>expiresAt\<close> has not passed, returns the same boolean and does not run the validity
  policy again. This fails at the instant \<^verbatim>\<open>expiresAt\<close> itself: the test is
  \<^verbatim>\<open>cached.expiresAt > Date.now()\<close>, so a call at \<open>now = expiresAt\<close> runs the policy again.
  With the allow-list gone by then it returns the other boolean; with the same environment
  it stores a new entry and logs the key a second time.\<close>

theorem validateApiKey_reruns_at_expiry:
  "validateApiKey \<lparr>VALID_API_KEYS = Some ''alpha,beta'', NODE_ENV = Some ''development''\<rparr> 1000 ''beta''
      \<lparr>apiKeyCache = Map.empty, console = []\<rparr>
     = (True, \<lparr>apiKeyCache = [''beta'' \<mapsto> \<lparr>valid = True, userId = None, expiresAt = 301000\<rparr>],
               console = [''API key used: beta...'']\<rparr>)
   \<and> validateApiKey \<lparr>VALID_API_KEYS = None, NODE_ENV = Some ''development''\<rparr> 301000 ''beta''
      \<lparr>apiKeyCache = [''beta'' \<mapsto> \<lparr>valid = True, userId = None, expiresAt = 301000\<rparr>],
       console = [''API key used: beta...'']\<rparr>
     = (False, \<lparr>apiKeyCache = [''beta'' \<mapsto> \<lparr>valid = False, userId = None, expiresAt = 601000\<rparr>],
                console = [''API key used: beta...'']\<rparr>)
   \<and> validateApiKey \<lparr>VALID_API_KEYS = Some ''alpha,beta'', NODE_ENV = Some ''development''\<rparr> 301000 ''beta''
      \<lparr>apiKeyCache = [''beta'' \<mapsto> \<lparr>valid = True, userId = None, expiresAt = 301000\<rparr>],
       console = [''API key used: beta...'']\<rparr>
     = (True, \<lparr>apiKeyCache = [''beta'' \<mapsto> \<lparr>valid = True, userId = None, expiresAt = 601000\<rparr>],
               console = [''API key used: beta...'', ''API key used: beta...'']\<rparr>)"
  by (simp add: validateApiKey_def evaluateKey_def logApiUsage_def js_split_def startsWith_def
      CACHE_TTL_def Let_def)

text \<open>CLAIM C9, amended:
  after a call of \<^verbatim>\<open>validateApiKey\<close> for \<open>k\<close> at time \<open>t1\<close> that returned \<open>b1\<close>, the cache holds
  an entry for \<open>k\<close> with that value, which expires at \<open>t1 + CACHE_TTL\<close> (five minutes later)
  when this call wrote it; a second call at a time \<open>t2\<close> before the entry's \<^verbatim>\<open>expiresAt\<close>
  returns \<open>b1\<close> again and leaves the cache and the console as they are, whatever the
  environment is by then: the allow-list is not read and nothing is logged.\<close>

theorem validateApiKey_memoized:
  assumes first: "validateApiKey env1 t1 k st0 = (b1, st1)"
  shows "\<exists>e. apiKeyCache st1 k = Some e \<and> valid e = b1
    \<and> ((case apiKeyCache st0 k of None \<Rightarrow> True | Some c \<Rightarrow> expiresAt c \<le> t1)
         \<longrightarrow> expiresAt e = t1 + CACHE_TTL)
    \<and> (t2 < expiresAt e \<longrightarrow> validateApiKey env2 t2 k st1 = (b1, st1))"
proof (cases "case apiKeyCache st0 k of None \<Rightarrow> True | Some c \<Rightarrow> expiresAt c \<le> t1")
  case True
  then have "validateApiKey env1 t1 k st0 = evaluateKey env1 t1 k st0"
    by (auto simp: validateApiKey_def split: option.splits)
  with first have eval: "evaluateKey env1 t1 k st0 = (b1, st1)" by simp
  let ?e = "\<lparr>valid = b1, userId = None, expiresAt = t1 + CACHE_TTL\<rparr>"
  have entry: "apiKeyCache st1 k = Some ?e"
    using evaluateKey_entry [of env1 t1 k st0] by (simp add: eval)
  have "t2 < expiresAt ?e \<longrightarrow> validateApiKey env2 t2 k st1 = (b1, st1)"
    using validateApiKey_hit [OF entry, of t2 env2] by simp
  with entry show ?thesis by simp
next
  case False
  then obtain c where c: "apiKeyCache st0 k = Some c" "t1 < expiresAt c"
    by (auto split: option.splits)
  with first have same: "b1 = valid c" "st1 = st0"
    by (simp_all add: validateApiKey_def)
  have "t2 < expiresAt c \<longrightarrow> validateApiKey env2 t2 k st0 = (valid c, st0)"
    using validateApiKey_hit [OF c(1), of t2 env2] by simp
  with c same False show ?thesis by simp
qed

theorem validateApiKey_memoized_witness:
  "validateApiKey \<lparr>VALID_API_KEYS = Some ''alpha,beta'', NODE_ENV = Some ''development''\<rparr> 1000 ''beta''
      \<lparr>apiKeyCache = Map.empty, console = []\<rparr>
     = (True, \<lparr>apiKeyCache = [''beta'' \<mapsto> \<lparr>valid = True, userId = None, expiresAt = 301000\<rparr>],
               console = [''API key used: beta...'']\<rparr>)
   \<and> validateApiKey \<lparr>VALID_API_KEYS = None, NODE_ENV = Some ''development''\<rparr> 300999 ''beta''
      \<lparr>apiKeyCache = [''beta'' \<mapsto> \<lparr>valid = True, userId = None, expiresAt = 301000\<rparr>],
       console = [''API key used: beta...'']\<rparr>
     = (True, \<lparr>apiKeyCache = [''beta'' \<mapsto> \<lparr>valid = True, userId = None, expiresAt = 301000\<rparr>],
               console = [''API key used: beta...'']\<rparr>)"
proof -
  let ?env1 = "\<lparr>VALID_API_KEYS = Some ''alpha,beta'', NODE_ENV = Some ''development''\<rparr>"
  let ?env2 = "\<lparr>VALID_API_KEYS = None, NODE_ENV = Some ''development''\<rparr>"
  let ?st0 = "\<lparr>apiKeyCache = Map.empty, console = []\<rparr>"
  let ?st1 = "\<lparr>apiKeyCache = [''beta'' \<mapsto> \<lparr>valid = True, userId = None, expiresAt = 301000\<rparr>],
               console = [''API key used: beta...'']\<rparr>"
  have first: "validateApiKey ?env1 1000 ''beta'' ?st0 = (True, ?st1)"
    by (simp add: validateApiKey_def evaluateKey_def logApiUsage_def js_split_def startsWith_def
        CACHE_TTL_def Let_def)
  from validateApiKey_memoized [OF first, of 300999 ?env2]
  have "validateApiKey ?env2 300999 ''beta'' ?st1 = (True, ?st1)"
    by (simp add: CACHE_TTL_def)
  with first show ?thesis by simp
qed

section \<open>Properties of the request and response transformation\<close>

text \<open>CLAIM C3, as stated:
  for a response whose \<^verbatim>\<open>choices\<close> is empty or missing, \<^verbatim>\<open>transformToAnthropicResponse\<close> fails
  with a \<open>MalformedUpstream\<close> error and not with an untyped crash. This fails: on an empty
  \<^verbatim>\<open>choices\<close> the function throws the runtime's \<^verbatim>\<open>TypeError\<close>.\<close>

theorem empty_choices_raise_TypeError:
  "transformToAnthropicResponse
      \<lparr>areq_model = ''claude-3-opus'',
       areq_messages = [\<lparr>am_role = ''user'', am_content = Text ''Hi''\<rparr>],
       areq_max_tokens = None, areq_temperature = None, areq_top_p = None, areq_top_k = None,
       areq_metadata = None, areq_stop_sequences = None, areq_stream = None,
       areq_system = None\<rparr>
      \<lparr>ores_id = ''gen-1'', ores_object = ''chat.completion'', ores_created = 0,
       ores_model = ''openai/gpt-4o'', ores_choices = Some [], ores_usage = None\<rparr>
     = Inl TypeError
   \<and> transformToAnthropicResponse
      \<lparr>areq_model = ''claude-3-opus'',
       areq_messages = [\<lparr>am_role = ''user'', am_content = Text ''Hi''\<rparr>],
       areq_max_tokens = None, areq_temperature = None, areq_top_p = None, areq_top_k = None,
       areq_metadata = None, areq_stop_sequences = None, areq_stream = None,
       areq_system = None\<rparr>
      \<lparr>ores_id = ''gen-1'', ores_object = ''chat.completion'', ores_created = 0,
       ores_model = ''openai/gpt-4o'', ores_choices = Some [], ores_usage = None\<rparr>
     \<noteq> Inl MalformedUpstream"
  by (simp add: transformToAnthropicResponse_def)

text \<open>CLAIM C3, amended:
  for a response whose \<^verbatim>\<open>choices\<close> is empty or missing, \<^verbatim>\<open>transformToAnthropicResponse\<close> fails
  with the runtime's \<^verbatim>\<open>TypeError\<close>; for a response with at least one choice it succeeds and
  returns a response; it never fails with \<open>MalformedUpstream\<close>.\<close>

theorem transformToAnthropicResponse_outcome:
  "(ores_choices resp = None \<or> ores_choices resp = Some []
      \<longrightarrow> transformToAnthropicResponse req resp = Inl TypeError)
   \<and> (\<forall>c cs. ores_choices resp = Some (c # cs)
      \<longrightarrow> (\<exists>r. transformToAnthropicResponse req resp = Inr r))
   \<and> transformToAnthropicResponse req resp \<noteq> Inl MalformedUpstream"
  by (auto simp: transformToAnthropicResponse_def split: option.splits list.splits)

theorem transformToAnthropicResponse_outcome_witness:
  "transformToAnthropicResponse
      \<lparr>areq_model = ''claude-3-opus'', areq_messages = [],
       areq_max_tokens = None, areq_temperature = None, areq_top_p = None, areq_top_k = None,
       areq_metadata = None, areq_stop_sequences = None, areq_stream = None,
       areq_system = None\<rparr>
      \<lparr>ores_id = ''gen-1'', ores_object = ''chat.completion'', ores_created = 0,
       ores_model = ''openai/gpt-4o'', ores_choices = None, ores_usage = None\<rparr>
     = Inl TypeError
   \<and> (\<exists>r. transformToAnthropicResponse
      \<lparr>areq_model = ''claude-3-opus'', areq_messages = [],
       areq_max_tokens = None, areq_temperature = None, areq_top_p = None, areq_top_k = None,
       areq_metadata = None, areq_stop_sequences = None, areq_stream = None,
       areq_system = None\<rparr>
      \<lparr>ores_id = ''gen-1'', ores_object = ''chat.completion'', ores_created = 0,
       ores_model = ''openai/gpt-4o'',
       ores_choices = Some [\<lparr>ch_index = 0,
          ch_message = \<lparr>cm_role = ''assistant'', cm_content = ''Hello''\<rparr>,
          ch_finish_reason = ''stop''\<rparr>],
       ores_usage = None\<rparr> = Inr r)"
proof -
  let ?req = "\<lparr>areq_model = ''claude-3-opus'', areq_messages = [],
       areq_max_tokens = None, areq_temperature = None, areq_top_p = None, areq_top_k = None,
       areq_metadata = None, areq_stop_sequences = None, areq_stream = None,
       areq_system = None\<rparr>"
  let ?absent = "\<lparr>ores_id = ''gen-1'', ores_object = ''chat.completion'', ores_created = 0,
       ores_model = ''openai/gpt-4o'', ores_choices = None, ores_usage = None\<rparr>"
  let ?choice = "\<lparr>ch_index = 0,
          ch_message = \<lparr>cm_role = ''assistant'', cm_content = ''Hello''\<rparr>,
          ch_finish_reason = ''stop''\<rparr>"
  let ?one = "\<lparr>ores_id = ''gen-1'', ores_object = ''chat.completion'', ores_created = 0,
       ores_model = ''openai/gpt-4o'', ores_choices = Some [?choice], ores_usage = None\<rparr>"
  have "transformToAnthropicResponse ?req ?absent = Inl TypeError"
    using transformToAnthropicResponse_outcome [of ?absent ?req] by simp
  moreover have "\<exists>r. transformToAnthropicResponse ?req ?one = Inr r"
    using transformToAnthropicResponse_outcome [of ?one ?req] by simp
  ultimately show ?thesis by blast
qed

text \<open>CLAIM C6:
  whenever \<^verbatim>\<open>transformToAnthropicResponse\<close> returns a response, its \<^verbatim>\<open>model\<close> is the model of
  the original request, not the model the upstream response names.\<close>

theorem response_model_is_request_model:
  "transformToAnthropicResponse req resp = Inr r \<Longrightarrow> ares_model r = areq_model req"
  by (auto simp: transformToAnthropicResponse_def split: option.splits list.splits)

theorem response_model_is_request_model_witness:
  "transformToAnthropicResponse
      \<lparr>areq_model = ''claude-3-opus'', areq_messages = [],
       areq_max_tokens = None, areq_temperature = None, areq_top_p = None, areq_top_k = None,
       areq_metadata = None, areq_stop_sequences = None, areq_stream = None,
       areq_system = None\<rparr>
      \<lparr>ores_id = ''gen-1'', ores_object = ''chat.completion'', ores_created = 0,
       ores_model = ''openai/gpt-4o'',
       ores_choices = Some [\<lparr>ch_index = 0,
          ch_message = \<lparr>cm_role = ''assistant'', cm_content = ''Hello''\<rparr>,
          ch_finish_reason = ''stop''\<rparr>],
       ores_usage = Some \<lparr>prompt_tokens = 3, completion_tokens = 5, total_tokens = 8\<rparr>\<rparr>
     = Inr \<lparr>ares_id = ''gen-1'', ares_type = ''message'', ares_role = ''assistant'',
            ares_content = [\<lparr>tb_type = ''text'', tb_text = ''Hello''\<rparr>],
            ares_model = ''claude-3-opus'', ares_stop_reason = Some ''end_turn'',
            ares_stop_sequence = None,
            ares_usage = \<lparr>input_tokens = 3, output_tokens = 5\<rparr>\<rparr>
   \<and> ares_model \<lparr>ares_id = ''gen-1'', ares_type = ''message'', ares_role = ''assistant'',
            ares_content = [\<lparr>tb_type = ''text'', tb_text = ''Hello''\<rparr>],
            ares_model = ''claude-3-opus'', ares_stop_reason = Some ''end_turn'',
            ares_stop_sequence = None,
            ares_usage = \<lparr>input_tokens = 3, output_tokens = 5\<rparr>\<rparr> = ''claude-3-opus''"
proof -
  let ?req = "\<lparr>areq_model = ''claude-3-opus'', areq_messages = [],
       areq_max_tokens = None, areq_temperature = None, areq_top_p = None, areq_top_k = None,
       areq_metadata = None, areq_stop_sequences = None, areq_stream = None,
       areq_system = None\<rparr>"
  let ?resp = "\<lparr>ores_id = ''gen-1'', ores_object = ''chat.completion'', ores_created = 0,
       ores_model = ''openai/gpt-4o'',
       ores_choices = Some [\<lparr>ch_index = 0,
          ch_message = \<lparr>cm_role = ''assistant'', cm_content = ''Hello''\<rparr>,
          ch_finish_reason = ''stop''\<rparr>],
       ores_usage = Some \<lparr>prompt_tokens = 3, completion_tokens = 5, total_tokens = 8\<rparr>\<rparr>"
  let ?r = "\<lparr>ares_id = ''gen-1'', ares_type = ''message'', ares_role = ''assistant'',
            ares_content = [\<lparr>tb_type = ''text'', tb_text = ''Hello''\<rparr>],
            ares_model = ''claude-3-opus'', ares_stop_reason = Some ''end_turn'',
            ares_stop_sequence = None,
            ares_usage = \<lparr>input_tokens = 3, output_tokens = 5\<rparr>\<rparr>"
  have run: "transformToAnthropicResponse ?req ?resp = Inr ?r"
    by (simp add: transformToAnthropicResponse_def mapFinishReason_def or_zero_def)
  from response_model_is_request_model [OF run] have "ares_model ?r = ''claude-3-opus''"
    by simp
  with run show ?thesis by blast
qed

lemma transformMessages_map:
  "transformMessages msgs
     = map (\<lambda>msg. \<lparr>om_role = am_role msg, om_content = extractContent (am_content msg)\<rparr>) msgs"
  by (induction msgs) simp_all

text \<open>CLAIM C7, as stated:
  for every request in which \<^verbatim>\<open>system\<close> is present, the first message of the target request
  is the system message. This fails for a \<^verbatim>\<open>system\<close> that is present and empty: the test
  \<^verbatim>\<open>if (this.request.system)\<close> is false for the empty string, and no system message is
  added.\<close>

theorem empty_system_not_prepended:
  "oreq_messages (transformToOpenRouter
      \<lparr>areq_model = ''m'',
       areq_messages = [\<lparr>am_role = ''user'', am_content = Text ''Hi''\<rparr>],
       areq_max_tokens = None, areq_temperature = None, areq_top_p = None, areq_top_k = None,
       areq_metadata = None, areq_stop_sequences = None, areq_stream = Some False,
       areq_system = Some ''''\<rparr>)
     = [\<lparr>om_role = ''user'', om_content = ''Hi''\<rparr>]"
  by (simp add: transformToOpenRouter_def)

text \<open>CLAIM C7, amended:
  for every request whose \<^verbatim>\<open>system\<close> is present and not empty, the target request's messages
  are the message with role \<^verbatim>\<open>system\<close> and that content, followed by the transcoded messages
  of the request in their order.\<close>

theorem system_message_first:
  assumes "areq_system req = Some s" and "s \<noteq> []"
  shows "oreq_messages (transformToOpenRouter req)
     = \<lparr>om_role = ''system'', om_content = s\<rparr>
       # map (\<lambda>msg. \<lparr>om_role = am_role msg, om_content = extractContent (am_content msg)\<rparr>)
           (areq_messages req)"
  using assms by (simp add: transformToOpenRouter_def transformMessages_map)

theorem system_message_first_witness:
  "oreq_messages (transformToOpenRouter
      \<lparr>areq_model = ''m'',
       areq_messages = [\<lparr>am_role = ''user'', am_content = Text ''Hi''\<rparr>],
       areq_max_tokens = None, areq_temperature = None, areq_top_p = None, areq_top_k = None,
       areq_metadata = None, areq_stop_sequences = None, areq_stream = Some False,
       areq_system = Some ''Be terse''\<rparr>)
     = [\<lparr>om_role = ''system'', om_content = ''Be terse''\<rparr>,
        \<lparr>om_role = ''user'', om_content = ''Hi''\<rparr>]"
  using system_message_first [of
      "\<lparr>areq_model = ''m'',
       areq_messages = [\<lparr>am_role = ''user'', am_content = Text ''Hi''\<rparr>],
       areq_max_tokens = None, areq_temperature = None, areq_top_p = None, areq_top_k = None,
       areq_metadata = None, areq_stop_sequences = None, areq_stream = Some False,
       areq_system = Some ''Be terse''\<rparr>" "''Be terse''"]
  by simp

end
